theory Spec2Isabelle
  imports Complex_Main
begin

section \<open>Python values and exceptions\<close>

text \<open>
  The arguments handed to the database layer are Python objects. The model keeps the
  shapes the code distinguishes: strings, integers, \<open>None\<close>, lists and tuples (the
  non-string sequences of \<open>issequenceform\<close>) and dicts (the objects that have an
  \<open>items\<close> attribute). A dict is an association list with string keys, in insertion
  order. A string is a list of code points below 256.
\<close>

datatype pyval =
    PNone
  | PInt int
  | PStr string
  | PList "pyval list"
  | PTuple "pyval list"
  | PMap "(string \<times> pyval) list"

text \<open>
  \<open>ERROR_TPL.format(command, args, error)\<close>: the message of a \<open>DatabaseException\<close>.
  The three values the template renders are kept as fields, not rendered to text.
\<close>

record error_text =
  statement :: string
  parameters :: "pyval list"
  message :: string

text \<open>
  The exceptions of the modelled code. \<open>TypeError\<close>, \<open>ValueError\<close> and \<open>KeyError\<close>
  come from the \<open>%\<close> operator on strings; \<open>DriverError\<close> is an exception of the
  backend driver (a subclass of \<open>Exception\<close>) with its message. \<open>FormatNotModelled\<close>
  marks a conversion specification outside the ones modelled below (anything but
  \<open>%s\<close>, \<open>%(key)s\<close> and \<open>%%\<close>); it stands for no Python exception.
\<close>

datatype exn =
    TypeError
  | ValueError
  | KeyError string
  | UnkownDatabaseException
  | DatabaseException error_text
  | DriverError string
  | FormatNotModelled

section \<open>The string formatting operator\<close>

definition prepend :: "string \<Rightarrow> exn + string \<Rightarrow> exn + string" where
  "prepend s r = (case r of Inl e \<Rightarrow> Inl e | Inr t \<Rightarrow> Inr (s @ t))"

text \<open>
  \<open>command % tuple\<close>. Each \<open>%s\<close> takes the next element, \<open>%%\<close> is a percent sign,
  a key in parentheses needs a mapping, a percent sign at the end is an incomplete
  format; elements left over at the end are an error.
\<close>

fun format_tuple :: "string \<Rightarrow> string list \<Rightarrow> exn + string" where
  "format_tuple [] args = (if args = [] then Inr [] else Inl TypeError)"
| "format_tuple (c # cs) args =
     (if c \<noteq> CHR ''%'' then prepend [c] (format_tuple cs args)
      else (case cs of
              [] \<Rightarrow> Inl ValueError
            | d # ds \<Rightarrow>
                if d = CHR ''%'' then prepend ''%'' (format_tuple ds args)
                else if d = CHR ''s'' then
                  (case args of
                     [] \<Rightarrow> Inl TypeError
                   | a # as \<Rightarrow> prepend a (format_tuple ds as))
                else if d = CHR ''('' then Inl TypeError
                else Inl FormatNotModelled))"

text \<open>
  The key of \<open>%(key)s\<close>: the text up to the parenthesis that closes the one just read,
  nested parentheses counted. \<open>None\<close> when the format ends first.
\<close>

fun scan_key :: "nat \<Rightarrow> string \<Rightarrow> string \<Rightarrow> (string \<times> string) option" where
  "scan_key pcount acc [] = None"
| "scan_key pcount acc (c # cs) =
     (if c = CHR '')'' then
        (if pcount \<le> 1 then Some (rev acc, cs) else scan_key (pcount - 1) (c # acc) cs)
      else if c = CHR ''('' then scan_key (Suc pcount) (c # acc) cs
      else scan_key pcount (c # acc) cs)"

text \<open>\<open>repr\<close> of a string, and \<open>str\<close> of a dict of strings.\<close>

definition hexdigit :: "nat \<Rightarrow> char" where
  "hexdigit n = ''0123456789abcdef'' ! (n mod 16)"

definition isprintable :: "char \<Rightarrow> bool" where
  "isprintable c =
     (let n = (of_char c :: nat)
      in (32 \<le> n \<and> n < 127) \<or> (161 \<le> n \<and> n \<noteq> 173))"

definition repr_char :: "char \<Rightarrow> char \<Rightarrow> string" where
  "repr_char quote c =
     (if c = quote \<or> c = CHR 0x5C then [CHR 0x5C, c]
      else if c = CHR 0x09 then [CHR 0x5C, CHR ''t'']
      else if c = CHR 0x0A then [CHR 0x5C, CHR ''n'']
      else if c = CHR 0x0D then [CHR 0x5C, CHR ''r'']
      else if isprintable c then [c]
      else [CHR 0x5C, CHR ''x'', hexdigit (of_char c div 16), hexdigit (of_char c)])"

definition repr_str :: "string \<Rightarrow> string" where
  "repr_str s =
     (let quote = (if CHR 0x27 \<in> set s \<and> CHR 0x22 \<notin> set s then CHR 0x22 else CHR 0x27)
      in [quote] @ concat (map (repr_char quote) s) @ [quote])"

fun join :: "string \<Rightarrow> string list \<Rightarrow> string" where
  "join sep [] = []"
| "join sep [x] = x"
| "join sep (x # y # ys) = x @ sep @ join sep (y # ys)"

definition str_dict :: "(string \<times> string) list \<Rightarrow> string" where
  "str_dict d =
     ''{'' @ join '', '' (map (\<lambda>(k, v). repr_str k @ '': '' @ repr_str v) d) @ ''}''"

lemma scan_key_shorter: "scan_key n acc cs = Some (k, rest) \<Longrightarrow> length rest < length cs"
  by (induction n acc cs rule: scan_key.induct) (auto split: if_splits)

text \<open>
  \<open>command % dict\<close>. \<open>%(key)s\<close> looks the key up (\<open>KeyError\<close> when it is absent);
  a bare \<open>%s\<close> renders the whole dict when no specification before it took a value
  (\<open>avail\<close>), and has no argument left otherwise.
\<close>

function format_dict :: "string \<Rightarrow> (string \<times> string) list \<Rightarrow> bool \<Rightarrow> exn + string" where
  "format_dict [] d avail = Inr []"
| "format_dict (c # cs) d avail =
     (if c \<noteq> CHR ''%'' then prepend [c] (format_dict cs d avail)
      else (case cs of
              [] \<Rightarrow> Inl ValueError
            | e # es \<Rightarrow>
                if e = CHR ''('' then
                  (case scan_key 1 [] es of
                     None \<Rightarrow> Inl ValueError
                   | Some (key, rest) \<Rightarrow>
                       (case map_of d key of
                          None \<Rightarrow> Inl (KeyError key)
                        | Some v \<Rightarrow>
                            (case rest of
                               [] \<Rightarrow> Inl ValueError
                             | t # ts \<Rightarrow>
                                 if t = CHR ''s'' then prepend v (format_dict ts d False)
                                 else Inl FormatNotModelled)))
                else if e = CHR ''%'' then prepend ''%'' (format_dict es d avail)
                else if e = CHR ''s'' then
                  (if avail then prepend (str_dict d) (format_dict es d False)
                   else Inl TypeError)
                else Inl FormatNotModelled))"
  by pat_completeness auto
termination
  by (relation "measure (\<lambda>(s, d, avail). length s)") (auto dest: scan_key_shorter)

section \<open>zoom.database\<close>

subsection \<open>Parameter translation\<close>

definition hasattr_items :: "pyval \<Rightarrow> bool" where
  "hasattr_items v = (case v of PMap m \<Rightarrow> True | _ \<Rightarrow> False)"

definition truthy :: "pyval \<Rightarrow> bool" where
  "truthy v =
     (case v of
        PNone \<Rightarrow> False
      | PInt n \<Rightarrow> n \<noteq> 0
      | PStr s \<Rightarrow> s \<noteq> []
      | PList xs \<Rightarrow> xs \<noteq> []
      | PTuple xs \<Rightarrow> xs \<noteq> []
      | PMap m \<Rightarrow> m \<noteq> [])"

text \<open>\<open>issequenceform\<close>: a sequence type that is not a string.\<close>

definition issequenceform :: "pyval \<Rightarrow> bool" where
  "issequenceform obj =
     (case obj of PStr s \<Rightarrow> False | PList xs \<Rightarrow> True | PTuple xs \<Rightarrow> True | _ \<Rightarrow> False)"

definition len :: "pyval \<Rightarrow> nat" where
  "len v =
     (case v of
        PList xs \<Rightarrow> length xs
      | PTuple xs \<Rightarrow> length xs
      | PStr s \<Rightarrow> length s
      | PMap m \<Rightarrow> length m
      | _ \<Rightarrow> 0)"

definition keys :: "pyval \<Rightarrow> string list" where
  "keys v = (case v of PMap m \<Rightarrow> map fst m | _ \<Rightarrow> [])"

text \<open>\<open>{key: ':%s' % key for key in args[0]}\<close>\<close>

definition named_placeholders :: "pyval \<Rightarrow> (string \<times> string) list" where
  "named_placeholders v = map (\<lambda>key. (key, CHR '':'' # key)) (keys v)"

definition with_params :: "exn + string \<Rightarrow> pyval \<Rightarrow> exn + string \<times> pyval" where
  "with_params r params = (case r of Inl e \<Rightarrow> Inl e | Inr cmd \<Rightarrow> Inr (cmd, params))"

text \<open>
  \<open>Database.translate\<close>. The first argument is \<open>self.paramstyle\<close>; \<open>args\<close> is the
  tuple of the positional arguments after the command.
\<close>

definition translate :: "string \<Rightarrow> string \<Rightarrow> pyval list \<Rightarrow> exn + string \<times> pyval" where
  "translate paramstyle command args =
     (if paramstyle = ''qmark'' then
        (if length args = 1 \<and> hasattr_items (args ! 0) \<and> truthy (args ! 0) then
           with_params (format_dict command (named_placeholders (args ! 0)) True) (args ! 0)
         else if length args \<ge> 1 \<and> issequenceform (args ! 0) then
           with_params (format_tuple command (replicate (len (args ! 0)) ''?'')) (PTuple args)
         else
           with_params (format_tuple command (replicate (length args) ''?'')) (PTuple args))
      else
        Inr (command,
             if length args = 1 \<and> hasattr_items (args ! 0) \<and> truthy (args ! 0)
             then args ! 0 else PTuple args))"

subsection \<open>Cursors and results\<close>

text \<open>
  A DB-API cursor, as far as the code reads it: \<open>description\<close> (\<open>None\<close> or the
  columns of the row output), \<open>rowcount\<close>, \<open>lastrowid\<close> (\<open>None\<close> when the cursor
  has no such attribute) and the rows \<open>fetchmany\<close> has not handed out yet.
\<close>

record cursor =
  description :: "string list option"
  cursor_rowcount :: int
  cursor_lastrowid :: "int option"
  pending :: "pyval list list"

definition fetchmany :: "cursor \<Rightarrow> nat \<Rightarrow> pyval list list \<times> cursor" where
  "fetchmany c sz = (take sz (pending c), c\<lparr>pending := drop sz (pending c)\<rparr>)"

definition ARRAY_SIZE :: nat where
  "ARRAY_SIZE = 1000"

record Result =
  result_cursor :: cursor
  array_size :: nat

text \<open>
  \<open>Result.__iter__\<close>, run to its end: the rows it yields and the cursor it leaves.
\<close>

function iter_cursor :: "cursor \<Rightarrow> nat \<Rightarrow> pyval list list \<times> cursor" where
  "iter_cursor c sz =
     (let (results, c') = fetchmany c sz
      in if results = [] then ([], c')
         else (let (more, c'') = iter_cursor c' sz in (results @ more, c'')))"
  by pat_completeness auto
termination
  by (relation "measure (\<lambda>(c, sz). length (pending c))")
     (auto simp: fetchmany_def)

declare iter_cursor.simps [simp del]

definition Result_iter :: "Result \<Rightarrow> pyval list list \<times> Result" where
  "Result_iter self =
     (let (rows, c) = iter_cursor (result_cursor self) (array_size self)
      in (rows, self\<lparr>result_cursor := c\<rparr>))"

subsection \<open>The database object\<close>

text \<open>
  One line of the debug log,
  \<open>'  SQL ({:5.1f} ms): {!r} - {!r}'.format(elapsed, command, args)\<close>:
  the three values it renders.
\<close>

datatype trace = Trace real string "pyval list"

text \<open>
  The attributes of a \<open>Database\<close>; \<open>connected\<close> says that the private connection has
  been created. The log field is \<open>self.log\<close>.
\<close>

record Database =
  paramstyle :: string
  connected :: bool
  debug :: bool
  sql_log :: "trace list"
  rowcount :: "int option"
  lastrowid :: "int option"

text \<open>
  The driver behind a database object. A call of the driver either raises, with the
  text of its exception, or returns. \<open>connect\<close> is the factory call of
  \<open>__getattr__\<close>, \<open>new_cursor\<close> is \<open>connection.cursor()\<close>, \<open>autocommit\<close> is
  \<open>connection.autocommit(1)\<close>, and the two methods are \<open>cursor.execute\<close> and
  \<open>cursor.executemany\<close>, which take the statement and its parameters and leave the cursor
  changed.
\<close>

type_synonym cursor_method = "string \<Rightarrow> pyval \<Rightarrow> cursor \<Rightarrow> string + cursor"

record driver =
  connect :: "string option"
  new_cursor :: "string + cursor"
  autocommit :: "string option"
  cursor_execute :: cursor_method
  cursor_executemany :: cursor_method

text \<open>\<open>Database.__init__\<close>, with the \<open>paramstyle\<close> of the class.\<close>

definition Database_init :: "string \<Rightarrow> Database" where
  "Database_init style =
     \<lparr>paramstyle = style, connected = False, debug = False, sql_log = [],
      rowcount = None, lastrowid = None\<rparr>"

definition Sqlite3Database :: Database where
  "Sqlite3Database = Database_init ''qmark''"

definition MySQLDatabase :: Database where
  "MySQLDatabase = Database_init ''pyformat''"

text \<open>
  \<open>Database.__getattr__\<close>: the connection is created by the first attribute that is
  looked up on it.
\<close>

definition getattr_connection :: "Database \<Rightarrow> driver \<Rightarrow> exn + Database" where
  "getattr_connection self drv =
     (if connected self then Inr self
      else (case connect drv of
              Some msg \<Rightarrow> Inl (DriverError msg)
            | None \<Rightarrow> Inr (self\<lparr>connected := True\<rparr>)))"

text \<open>The \<open>finally\<close> clause of \<open>_execute\<close>.\<close>

definition append_log :: "Database \<Rightarrow> real \<Rightarrow> real \<Rightarrow> string \<Rightarrow> pyval list \<Rightarrow> Database" where
  "append_log self start stop command args =
     (if debug self
      then self\<lparr>sql_log := sql_log self @ [Trace ((stop - start) * 1000) command args]\<rparr>
      else self)"

text \<open>What \<open>_execute\<close> returns: a \<open>Result\<close>, or the value of \<open>lastrowid\<close>.\<close>

datatype returned = ReturnedResult Result | ReturnedRowId "int option"

definition description_truthy :: "cursor \<Rightarrow> bool" where
  "description_truthy c = (case description c of None \<Rightarrow> False | Some cols \<Rightarrow> cols \<noteq> [])"

text \<open>
  \<open>Database._execute\<close>. \<open>start\<close> and \<open>stop\<close> are the two readings of
  \<open>timeit.default_timer()\<close>. The database object is returned with the result, also
  when an exception leaves the function.
\<close>

definition private_execute ::
  "Database \<Rightarrow> cursor \<Rightarrow> cursor_method \<Rightarrow> string \<Rightarrow> pyval list \<Rightarrow> real \<Rightarrow> real
     \<Rightarrow> (exn + returned) \<times> Database" where
  "private_execute self cur method' command args start stop =
     (case translate (paramstyle self) command args of
        Inl e \<Rightarrow> (Inl e, self)
      | Inr (command', params) \<Rightarrow>
          (case method' command' params cur of
             Inl error \<Rightarrow>
               (Inl (DatabaseException
                       \<lparr>statement = command', parameters = args, message = error\<rparr>),
                append_log self start stop command' args)
           | Inr cur' \<Rightarrow>
               (let self' = append_log (self\<lparr>rowcount := Some (cursor_rowcount cur')\<rparr>)
                              start stop command' args
                in if description_truthy cur'
                   then (Inr (ReturnedResult
                                \<lparr>result_cursor = cur', array_size = ARRAY_SIZE\<rparr>), self')
                   else (Inr (ReturnedRowId (cursor_lastrowid cur')),
                         self'\<lparr>lastrowid := cursor_lastrowid cur'\<rparr>))))"

text \<open>\<open>self.cursor()\<close>: the attribute goes through \<open>__getattr__\<close>.\<close>

definition get_cursor :: "Database \<Rightarrow> driver \<Rightarrow> (exn + cursor) \<times> Database" where
  "get_cursor self drv =
     (case getattr_connection self drv of
        Inl e \<Rightarrow> (Inl e, self)
      | Inr self' \<Rightarrow>
          (case new_cursor drv of
             Inl msg \<Rightarrow> (Inl (DriverError msg), self')
           | Inr cur \<Rightarrow> (Inr cur, self')))"

definition execute ::
  "Database \<Rightarrow> driver \<Rightarrow> string \<Rightarrow> pyval list \<Rightarrow> real \<Rightarrow> real
     \<Rightarrow> (exn + returned) \<times> Database" where
  "execute self drv command args start stop =
     (case get_cursor self drv of
        (Inl e, self') \<Rightarrow> (Inl e, self')
      | (Inr cur, self') \<Rightarrow>
          private_execute self' cur (cursor_execute drv) command args start stop)"

definition execute_many ::
  "Database \<Rightarrow> driver \<Rightarrow> string \<Rightarrow> pyval list \<Rightarrow> real \<Rightarrow> real
     \<Rightarrow> (exn + returned) \<times> Database" where
  "execute_many self drv command sequence start stop =
     (case get_cursor self drv of
        (Inl e, self') \<Rightarrow> (Inl e, self')
      | (Inr cur, self') \<Rightarrow>
          private_execute self' cur (cursor_executemany drv) command sequence start stop)"

text \<open>\<open>database(engine, *args, **kwargs)\<close>; the arguments go to the driver.\<close>

definition database :: "string \<Rightarrow> driver \<Rightarrow> exn + Database" where
  "database engine drv =
     (if engine = ''sqlite3'' then Inr Sqlite3Database
      else if engine = ''mysql'' then
        (case getattr_connection MySQLDatabase drv of
           Inl e \<Rightarrow> Inl e
         | Inr db \<Rightarrow>
             (case autocommit drv of
                Some msg \<Rightarrow> Inl (DriverError msg)
              | None \<Rightarrow> Inr db))
      else Inl UnkownDatabaseException)"

section \<open>zoom.users\<close>

text \<open>
  The nested \<open>get_memberships\<close> of \<open>get_groups\<close>. \<open>memberships\<close> is the list of
  \<open>(group_id, subgroup_id)\<close> rows.
\<close>

function get_memberships :: "int \<Rightarrow> (int \<times> int) list \<Rightarrow> nat \<Rightarrow> int list" where
  "get_memberships group' memberships depth =
     (if depth < 10 then
        foldl (\<lambda>result (grp, sgrp).
                 if group' = sgrp \<and> grp \<notin> set result
                 then result @ get_memberships grp memberships (depth + 1)
                 else result)
              [group'] memberships
      else [group'])"
  by pat_completeness auto
termination
  by (relation "measure (\<lambda>(group', memberships, depth). 10 - depth)") auto

declare get_memberships.simps [simp del]



text \<open>\<open>str.strip()\<close>: the white space of Python among the code points below 256.\<close>

definition isspace :: "char \<Rightarrow> bool" where
  "isspace c =
     (let n = (of_char c :: nat)
      in (9 \<le> n \<and> n \<le> 13) \<or> (28 \<le> n \<and> n \<le> 32) \<or> n = 133 \<or> n = 160)"

definition strip :: "string \<Rightarrow> string" where
  "strip s = rev (dropWhile isspace (rev (dropWhile isspace s)))"

text \<open>
  The rows the three queries of \<open>get_groups\<close> return, or the exception the query raises:
  \<open>SELECT group_id FROM members WHERE user_id=%s\<close>,
  \<open>SELECT group_id, subgroup_id FROM subgroups ORDER BY subgroup_id\<close> and
  \<open>SELECT id, name FROM groups\<close>.
\<close>

record groups_db =
  select_members :: "int \<Rightarrow> exn + int list"
  select_subgroups :: "exn + (int \<times> int) list"
  select_groups :: "exn + (int \<times> string) list"

record user =
  user_id :: int

text \<open>The list \<open>groups = my_groups + memberships\<close> of \<open>get_groups\<close>.\<close>

definition group_ids :: "int list \<Rightarrow> (int \<times> int) list \<Rightarrow> int list" where
  "group_ids my_groups subgroups =
     my_groups @ foldl (\<lambda>memberships group'. memberships @ get_memberships group' subgroups 0)
                   [] my_groups"

definition get_groups :: "groups_db \<Rightarrow> user \<Rightarrow> exn + string list" where
  "get_groups db u =
     (case select_members db (user_id u) of
        Inl e \<Rightarrow> Inl e
      | Inr my_groups \<Rightarrow>
          (case select_subgroups db of
             Inl e \<Rightarrow> Inl e
           | Inr subgroups \<Rightarrow>
               (let groups = group_ids my_groups subgroups
                in (case select_groups db of
                      Inl e \<Rightarrow> Inl e
                    | Inr rows \<Rightarrow>
                        Inr (foldl (\<lambda>named_groups (groupid, name).
                                      if groupid \<in> set groups
                                      then named_groups @ [strip name]
                                      else named_groups)
                               [] rows)))))"

section \<open>Statements in the canonical placeholder syntax\<close>

text \<open>
  A statement as its callers write it: literal text without a percent sign, the
  positional marker \<open>%s\<close>, a named marker \<open>%(key)s\<close> whose key has no parenthesis,
  and the doubled percent sign. \<open>source_text\<close> is the text of a piece in the statement,
  \<open>native_text\<close> its text for a backend with question marks.
\<close>

datatype piece = Literal string | Positional | Named string | Percent

fun source_text :: "piece \<Rightarrow> string" where
  "source_text (Literal s) = s"
| "source_text Positional = ''%s''"
| "source_text (Named key) = ''%('' @ key @ '')s''"
| "source_text Percent = ''%%''"

fun native_text :: "piece \<Rightarrow> string" where
  "native_text (Literal s) = s"
| "native_text Positional = ''?''"
| "native_text (Named key) = CHR '':'' # key"
| "native_text Percent = ''%''"

fun well_formed :: "piece \<Rightarrow> bool" where
  "well_formed (Literal s) = (CHR ''%'' \<notin> set s)"
| "well_formed (Named key) = (CHR ''('' \<notin> set key \<and> CHR '')'' \<notin> set key)"
| "well_formed p = True"

fun is_positional :: "piece \<Rightarrow> bool" where
  "is_positional Positional = True"
| "is_positional p = False"

fun named_keys :: "piece list \<Rightarrow> string list" where
  "named_keys [] = []"
| "named_keys (Named key # ps) = key # named_keys ps"
| "named_keys (p # ps) = named_keys ps"

definition statement_text :: "piece list \<Rightarrow> string" where
  "statement_text ps = concat (map source_text ps)"

definition native_statement :: "piece list \<Rightarrow> string" where
  "native_statement ps = concat (map native_text ps)"

definition count_positional :: "piece list \<Rightarrow> nat" where
  "count_positional ps = length (filter is_positional ps)"

text \<open>
  The text that a canonical statement becomes when it is formatted with the placeholders
  of a mapping, read marker by marker from the left: a named marker whose key the mapping
  has becomes \<open>:key\<close>, and one whose key it lacks is a \<open>KeyError\<close>; a positional
  marker that no marker comes before becomes the text of the dict of the placeholders,
  and one that comes after another marker is a \<open>TypeError\<close>.
\<close>

fun mapping_statement :: "pyval \<Rightarrow> bool \<Rightarrow> piece list \<Rightarrow> exn + string" where
  "mapping_statement v first [] = Inr []"
| "mapping_statement v first (Named key # ps) =
     (if key \<in> set (keys v)
      then prepend (native_text (Named key)) (mapping_statement v False ps)
      else Inl (KeyError key))"
| "mapping_statement v first (Positional # ps) =
     (if first
      then prepend (str_dict (named_placeholders v)) (mapping_statement v False ps)
      else Inl TypeError)"
| "mapping_statement v first (p # ps) =
     prepend (native_text p) (mapping_statement v first ps)"

section \<open>Sample collaborators\<close>

text \<open>
  A cursor before any statement has run, the cursor an \<open>insert\<close> leaves behind and the
  cursor a \<open>select\<close> leaves behind; a driver whose statements fail and one whose
  statements insert a row.
\<close>

definition fresh_cursor :: cursor where
  "fresh_cursor =
     \<lparr>description = None, cursor_rowcount = -1, cursor_lastrowid = None, pending = []\<rparr>"

definition inserted_cursor :: cursor where
  "inserted_cursor =
     \<lparr>description = None, cursor_rowcount = 1, cursor_lastrowid = Some 1, pending = []\<rparr>"

definition selected_cursor :: cursor where
  "selected_cursor =
     \<lparr>description = Some [''id'', ''name''], cursor_rowcount = -1, cursor_lastrowid = Some 1,
      pending = [[PInt 1, PStr ''Joe''], [PInt 2, PStr ''Ann'']]\<rparr>"

definition failing :: cursor_method where
  "failing command params cur = Inl ''no such table: person''"

definition inserting :: cursor_method where
  "inserting command params cur = Inr inserted_cursor"

definition selecting :: cursor_method where
  "selecting command params cur = Inr selected_cursor"

definition failing_driver :: driver where
  "failing_driver =
     \<lparr>connect = None, new_cursor = Inr fresh_cursor, autocommit = None,
      cursor_execute = failing, cursor_executemany = failing\<rparr>"

definition working_driver :: driver where
  "working_driver =
     \<lparr>connect = None, new_cursor = Inr fresh_cursor, autocommit = None,
      cursor_execute = inserting, cursor_executemany = inserting\<rparr>"

text \<open>A driver whose statements select two rows, and one that cannot connect.\<close>

definition querying_driver :: driver where
  "querying_driver =
     \<lparr>connect = None, new_cursor = Inr fresh_cursor, autocommit = None,
      cursor_execute = selecting, cursor_executemany = selecting\<rparr>"

definition unreachable_driver :: driver where
  "unreachable_driver =
     \<lparr>connect = Some ''unable to open database file'', new_cursor = Inr fresh_cursor,
      autocommit = None, cursor_execute = inserting, cursor_executemany = inserting\<rparr>"

definition debugging :: "Database \<Rightarrow> Database" where
  "debugging db = db\<lparr>debug := True\<rparr>"

section \<open>Bounds and orders for the group closure\<close>


text \<open>
  The names of the groups in the order in which the closure meets their ids for the first
  time: the order the specification states for the result of \<open>get_groups\<close>.
\<close>

definition first_occurrences :: "int list \<Rightarrow> int list" where
  "first_occurrences ids = rev (remdups (rev ids))"

definition names_in_discovery_order :: "int list \<Rightarrow> (int \<times> string) list \<Rightarrow> string list" where
  "names_in_discovery_order ids rows =
     concat (map (\<lambda>groupid. map (\<lambda>row. strip (snd row))
                               (filter (\<lambda>row. fst row = groupid) rows))
                 (first_occurrences ids))"

text \<open>
  Two databases for a user who is a direct member of groups 2 and 1, in this order, with
  no subgroups; in the second one two names differ in a trailing blank only.
\<close>

definition plain_db :: groups_db where
  "plain_db =
     \<lparr>select_members = (\<lambda>uid. Inr [2, 1]), select_subgroups = Inr [],
      select_groups = Inr [(1, ''administrators''), (2, ''users'')]\<rparr>"

definition padded_db :: groups_db where
  "padded_db =
     \<lparr>select_members = (\<lambda>uid. Inr [2, 1]), select_subgroups = Inr [],
      select_groups = Inr [(1, ''staff''), (2, ''staff '')]\<rparr>"

text \<open>
  A database where the user is a direct member of group 1, group 1 is a subgroup of
  group 2 and group 2 a subgroup of group 3.
\<close>

definition chain_db :: groups_db where
  "chain_db =
     \<lparr>select_members = (\<lambda>uid. Inr [1]), select_subgroups = Inr [(2, 1), (3, 2)],
      select_groups = Inr [(1, ''users''), (2, '' managers''), (3, ''everyone ''),
                           (4, ''guests'')]\<rparr>"


definition guest :: user where
  "guest = \<lparr>user_id = 3\<rparr>"

section \<open>Formatting a canonical statement\<close>

lemma prepend_Inr [simp]: "prepend s (Inr t) = Inr (s @ t)"
  by (simp add: prepend_def)

lemma prepend_Inl [simp]: "prepend s (Inl e) = Inl e"
  by (simp add: prepend_def)

lemma prepend_prepend [simp]: "prepend a (prepend b r) = prepend (a @ b) r"
  by (cases r) simp_all

lemma prepend_Nil [simp]: "prepend [] r = r"
  by (cases r) simp_all

lemma format_tuple_literal:
  "CHR ''%'' \<notin> set s \<Longrightarrow> format_tuple (s @ rest) args = prepend s (format_tuple rest args)"
  by (induction s) auto

lemma format_tuple_piece:
  assumes "well_formed p"
  shows "format_tuple (source_text p @ rest) args =
           (case p of
              Positional \<Rightarrow>
                (case args of [] \<Rightarrow> Inl TypeError
                 | a # as \<Rightarrow> prepend a (format_tuple rest as))
            | Named key \<Rightarrow> Inl TypeError
            | _ \<Rightarrow> prepend (native_text p) (format_tuple rest args))"
  using assms by (cases p) (auto simp: format_tuple_literal)

lemma format_tuple_statement:
  assumes "\<forall>p \<in> set ps. well_formed p"
  shows "format_tuple (statement_text ps) (replicate n ''?'') =
           (if named_keys ps = [] \<and> count_positional ps = n
            then Inr (native_statement ps) else Inl TypeError)"
  using assms
proof (induction ps arbitrary: n)
  case Nil
  then show ?case by (auto simp: statement_text_def native_statement_def count_positional_def)
next
  case (Cons p ps)
  have wf: "well_formed p" and wfs: "\<forall>p \<in> set ps. well_formed p"
    using Cons.prems by simp_all
  have stmt: "statement_text (p # ps) = source_text p @ statement_text ps"
    by (simp add: statement_text_def)
  note step = format_tuple_piece[OF wf, of "statement_text ps", folded stmt]
  show ?case
  proof (cases p)
    case (Literal s)
    then show ?thesis using step[of "replicate n ''?''"] Cons.IH[OF wfs, of n]
      by (simp add: count_positional_def native_statement_def)
  next
    case Positional
    show ?thesis
    proof (cases n)
      case 0
      then show ?thesis using Positional step[of "[]"] by (simp add: count_positional_def)
    next
      case (Suc m)
      then show ?thesis using Positional step[of "replicate n ''?''"] Cons.IH[OF wfs, of m]
        by (simp add: count_positional_def native_statement_def)
    qed
  next
    case (Named key)
    then show ?thesis using step[of "replicate n ''?''"] by simp
  next
    case Percent
    then show ?thesis using step[of "replicate n ''?''"] Cons.IH[OF wfs, of n]
      by (simp add: count_positional_def native_statement_def)
  qed
qed

lemma format_dict_literal:
  "CHR ''%'' \<notin> set s \<Longrightarrow> format_dict (s @ rest) d avail = prepend s (format_dict rest d avail)"
  by (induction s) auto

lemma scan_key_plain:
  "CHR ''('' \<notin> set key \<Longrightarrow> CHR '')'' \<notin> set key \<Longrightarrow>
   scan_key 1 acc (key @ CHR '')'' # rest) = Some (rev acc @ key, rest)"
  by (induction key arbitrary: acc) auto

lemma format_dict_named:
  assumes "CHR ''('' \<notin> set key" "CHR '')'' \<notin> set key"
  shows "format_dict (''%('' @ key @ '')s'' @ rest) d avail =
           (case map_of d key of
              None \<Rightarrow> Inl (KeyError key)
            | Some v \<Rightarrow> prepend v (format_dict rest d False))"
  using scan_key_plain[OF assms, of "[]" "CHR ''s'' # rest"]
  by (simp split: option.splits)

lemma map_of_named_placeholders:
  "map_of (named_placeholders (PMap m)) key =
     (if key \<in> fst ` set m then Some (CHR '':'' # key) else None)"
  by (induction m) (auto simp: named_placeholders_def keys_def)

lemma format_dict_mapping:
  assumes "\<forall>p \<in> set ps. well_formed p"
  shows "format_dict (statement_text ps) (named_placeholders (PMap m)) first =
           mapping_statement (PMap m) first ps"
  using assms
proof (induction ps arbitrary: first)
  case Nil
  then show ?case by (simp add: statement_text_def)
next
  case (Cons p ps)
  have wf: "well_formed p" and wfs: "\<forall>p \<in> set ps. well_formed p"
    using Cons.prems by simp_all
  have stmt: "statement_text (q # ps) = source_text q @ statement_text ps" for q
    by (simp add: statement_text_def)
  note IH = Cons.IH[OF wfs]
  show ?case
  proof (cases p)
    case (Literal s)
    then show ?thesis using wf IH[of first]
      by (simp add: stmt format_dict_literal)
  next
    case Positional
    then show ?thesis using IH[of False]
      by (simp add: stmt)
  next
    case (Named key)
    have "format_dict (source_text (Named key) @ statement_text ps)
            (named_placeholders (PMap m)) first =
            (if key \<in> fst ` set m
             then prepend (CHR '':'' # key)
                    (format_dict (statement_text ps) (named_placeholders (PMap m)) False)
             else Inl (KeyError key))"
      using wf Named
        format_dict_named[of key "statement_text ps" "named_placeholders (PMap m)" first]
      by (simp add: map_of_named_placeholders del: format_dict.simps)
    then show ?thesis using Named IH[of False]
      by (simp add: stmt keys_def del: format_dict.simps)
  next
    case Percent
    then show ?thesis using IH[of first]
      by (simp add: stmt)
  qed
qed

lemma mapping_statement_named:
  assumes "count_positional ps = 0"
  shows "mapping_statement v first ps =
           (case find (\<lambda>key. key \<notin> set (keys v)) (named_keys ps) of
              None \<Rightarrow> Inr (native_statement ps)
            | Some key \<Rightarrow> Inl (KeyError key))"
  using assms
proof (induction ps arbitrary: first)
  case Nil
  then show ?case by (simp add: native_statement_def)
next
  case (Cons p ps)
  have np: "p \<noteq> Positional" and cnt: "count_positional ps = 0"
    using Cons.prems by (auto simp: count_positional_def split: if_splits)
  have native: "native_statement (q # ps) = native_text q @ native_statement ps" for q
    by (simp add: native_statement_def)
  show ?case
    using np Cons.IH[OF cnt]
    by (cases p) (simp_all add: native split: option.splits)
qed

section \<open>Parameter translation for a backend with question marks\<close>

text \<open>
  C1 (amended). On a \<open>qmark\<close> backend, for a statement in the canonical syntax:
  when exactly one argument is supplied and it is a non-empty mapping, the statement is
  formatted with the placeholders of the mapping and the mapping itself is the parameter
  set: every \<open>%(key)s\<close> whose key the mapping has becomes \<open>:key\<close>, a key it lacks is
  a \<open>KeyError\<close>, a \<open>%s\<close> that no marker comes before becomes the text of the dict of
  the placeholders and a \<open>%s\<close> that comes after another marker is a \<open>TypeError\<close>, the
  leftmost marker that fails deciding the exception; so a statement without \<open>%s\<close> has all
  its named markers rewritten, or the first key the mapping lacks is a \<open>KeyError\<close>.
  In every other case, an empty mapping included, the statement must have no named marker
  and as many \<open>%s\<close> as the first argument has elements when that is a non-string
  sequence, as many as there are arguments otherwise; then each \<open>%s\<close> becomes \<open>?\<close> and
  the tuple of the arguments is the parameter set, and any other statement is a
  \<open>TypeError\<close>.
\<close>

theorem translate_qmark_canonical:
  assumes "\<forall>p \<in> set ps. well_formed p"
  shows "translate ''qmark'' (statement_text ps) args =
           (if length args = 1 \<and> hasattr_items (args ! 0) \<and> truthy (args ! 0) then
              (case mapping_statement (args ! 0) True ps of
                 Inl e \<Rightarrow> Inl e
               | Inr cmd \<Rightarrow> Inr (cmd, args ! 0))
            else if named_keys ps = [] \<and>
                    count_positional ps =
                      (if length args \<ge> 1 \<and> issequenceform (args ! 0)
                       then len (args ! 0) else length args)
            then Inr (native_statement ps, PTuple args)
            else Inl TypeError)
         \<and> (length args = 1 \<and> hasattr_items (args ! 0) \<and> truthy (args ! 0)
              \<and> count_positional ps = 0 \<longrightarrow>
            translate ''qmark'' (statement_text ps) args =
              (case find (\<lambda>key. key \<notin> set (keys (args ! 0))) (named_keys ps) of
                 None \<Rightarrow> Inr (native_statement ps, args ! 0)
               | Some key \<Rightarrow> Inl (KeyError key)))"
proof -
  define single where
    "single \<longleftrightarrow> length args = 1 \<and> hasattr_items (args ! 0) \<and> truthy (args ! 0)"
  define n where
    "n = (if length args \<ge> 1 \<and> issequenceform (args ! 0) then len (args ! 0) else length args)"
  have tr: "translate ''qmark'' (statement_text ps) args =
          (if single
           then with_params
                  (format_dict (statement_text ps) (named_placeholders (args ! 0)) True)
                  (args ! 0)
           else with_params (format_tuple (statement_text ps) (replicate n ''?''))
                  (PTuple args))"
    unfolding translate_def single_def[symmetric] n_def by simp
  have mapping: "translate ''qmark'' (statement_text ps) args =
                   (case mapping_statement (args ! 0) True ps of
                      Inl e \<Rightarrow> Inl e
                    | Inr cmd \<Rightarrow> Inr (cmd, args ! 0))" if s: single
  proof -
    obtain m where m: "args ! 0 = PMap m"
      using s by (auto simp: single_def hasattr_items_def split: pyval.splits)
    show ?thesis
      using s format_dict_mapping[OF assms, of m True]
      by (simp add: tr m with_params_def split: sum.splits)
  qed
  have positional: "translate ''qmark'' (statement_text ps) args =
                      (if named_keys ps = [] \<and> count_positional ps = n
                       then Inr (native_statement ps, PTuple args) else Inl TypeError)"
    if "\<not> single"
    using that by (simp add: tr format_tuple_statement[OF assms] with_params_def)
  have general: "translate ''qmark'' (statement_text ps) args =
                   (if single then
                      (case mapping_statement (args ! 0) True ps of
                         Inl e \<Rightarrow> Inl e
                       | Inr cmd \<Rightarrow> Inr (cmd, args ! 0))
                    else if named_keys ps = [] \<and> count_positional ps = n
                    then Inr (native_statement ps, PTuple args)
                    else Inl TypeError)"
    using mapping positional by (cases single) simp_all
  have named: "translate ''qmark'' (statement_text ps) args =
                 (case find (\<lambda>key. key \<notin> set (keys (args ! 0))) (named_keys ps) of
                    None \<Rightarrow> Inr (native_statement ps, args ! 0)
                  | Some key \<Rightarrow> Inl (KeyError key))"
    if single "count_positional ps = 0"
    using mapping[OF that(1)] mapping_statement_named[OF that(2), of "args ! 0" True]
    by (simp split: option.splits)
  show ?thesis
    using general named unfolding single_def n_def by blast
qed

theorem translate_qmark_canonical_witness:
  "translate ''qmark'' ''select * from person where name=%(name)s''
       [PMap [(''name'', PStr ''Joe'')]] =
     Inr (''select * from person where name=:name'', PMap [(''name'', PStr ''Joe'')])
   \<and> translate ''qmark'' ''insert into person (name, age) values (%s, %s)''
       [PStr ''Joe'', PInt 32] =
     Inr (''insert into person (name, age) values (?, ?)'', PTuple [PStr ''Joe'', PInt 32])
   \<and> translate ''qmark'' ''select %(a)s, %s'' [PMap [(''a'', PInt 1)]] = Inl TypeError
   \<and> translate ''qmark'' ''select %(b)s, %s'' [PMap [(''a'', PInt 1)]] = Inl (KeyError ''b'')
   \<and> translate ''qmark'' ''select %s, %(a)s'' [PMap [(''a'', PInt 1)]] =
     Inr (''select '' @ str_dict [(''a'', '':a'')] @ '', :a'', PMap [(''a'', PInt 1)])"
  using translate_qmark_canonical
          [of "[Literal ''select * from person where name='', Named ''name'']"
              "[PMap [(''name'', PStr ''Joe'')]]"]
        translate_qmark_canonical
          [of "[Literal ''insert into person (name, age) values ('', Positional,
                Literal '', '', Positional, Literal '')'']"
              "[PStr ''Joe'', PInt 32]"]
        translate_qmark_canonical
          [of "[Literal ''select '', Named ''a'', Literal '', '', Positional]"
              "[PMap [(''a'', PInt 1)]]"]
        translate_qmark_canonical
          [of "[Literal ''select '', Named ''b'', Literal '', '', Positional]"
              "[PMap [(''a'', PInt 1)]]"]
        translate_qmark_canonical
          [of "[Literal ''select '', Positional, Literal '', '', Named ''a'']"
              "[PMap [(''a'', PInt 1)]]"]
  by (simp add: statement_text_def native_statement_def count_positional_def
      hasattr_items_def truthy_def issequenceform_def keys_def named_placeholders_def)

theorem translate_empty_mapping_counterexample:
  "translate ''qmark'' ''select %s'' [PMap []] = Inr (''select ?'', PTuple [PMap []])
   \<and> translate ''qmark'' ''select %s'' [PMap []] \<noteq> Inr (''select ?'', PMap [])
   \<and> translate ''qmark'' ''select 1'' [PMap []] = Inl TypeError"
  by (simp add: translate_def with_params_def hasattr_items_def truthy_def
      issequenceform_def)

section \<open>Executing a statement\<close>

lemma get_cursor_connected:
  "get_cursor self drv = (Inr cur, self') \<Longrightarrow>
     paramstyle self' = paramstyle self \<and> debug self' = debug self \<and>
     sql_log self' = sql_log self"
  by (auto simp: get_cursor_def getattr_connection_def split: sum.splits option.splits if_splits)

lemma format_tuple_errors:
  "format_tuple s args = Inl e \<Longrightarrow> e \<in> {TypeError, ValueError, FormatNotModelled}"
proof (induction s args rule: format_tuple.induct)
  case (1 args)
  then show ?case by (simp split: if_splits)
next
  case (2 c cs args)
  then show ?case
    by (auto simp: prepend_def split: if_splits list.splits sum.splits)
qed

lemma format_dict_errors:
  "format_dict s d avail = Inl e \<Longrightarrow>
     e \<in> {TypeError, ValueError, FormatNotModelled} \<or> (\<exists>key. e = KeyError key)"
proof (induction s d avail rule: format_dict.induct)
  case (1 d avail)
  then show ?case by simp
next
  case (2 c cs d avail)
  then show ?case
    by (auto simp: prepend_def split: if_splits list.splits sum.splits option.splits)
qed

lemma translate_errors:
  assumes "translate style command args = Inl e"
  shows "e \<in> {TypeError, ValueError, FormatNotModelled} \<or> (\<exists>key. e = KeyError key)"
  using assms format_tuple_errors format_dict_errors
  by (fastforce simp: translate_def with_params_def split: if_splits sum.splits)

text \<open>
  C2 (amended). When the driver raises while the statement runs, \<open>_execute\<close>, and with
  it \<open>execute\<close> and \<open>execute_many\<close>, raises a \<open>DatabaseException\<close> that carries the
  statement as translated for the backend, the arguments as they were supplied and the
  message of the driver's exception.
\<close>

theorem driver_failure_wrapped:
  assumes "translate (paramstyle self) command args = Inr (command', params)"
    and "method' command' params cur = Inl error"
  shows "fst (private_execute self cur method' command args start stop) =
           Inl (DatabaseException
                  \<lparr>statement = command', parameters = args, message = error\<rparr>)"
  using assms by (simp add: private_execute_def)

theorem driver_failure_wrapped_witness:
  "fst (execute Sqlite3Database failing_driver ''select * from person where id=%s''
          [PInt 1] 0 1) =
     Inl (DatabaseException
            \<lparr>statement = ''select * from person where id=?'', parameters = [PInt 1],
             message = ''no such table: person''\<rparr>)
   \<and> fst (execute_many MySQLDatabase failing_driver ''insert into person values (%s)''
          [PTuple [PInt 1], PTuple [PInt 2]] 0 1) =
     Inl (DatabaseException
            \<lparr>statement = ''insert into person values (%s)'',
             parameters = [PTuple [PInt 1], PTuple [PInt 2]],
             message = ''no such table: person''\<rparr>)"
  using driver_failure_wrapped
          [of "Sqlite3Database\<lparr>connected := True\<rparr>"
              "''select * from person where id=%s''" "[PInt 1]"
              "''select * from person where id=?''" "PTuple [PInt 1]" failing fresh_cursor
              "''no such table: person''" 0 1]
        driver_failure_wrapped
          [of "MySQLDatabase\<lparr>connected := True\<rparr>" "''insert into person values (%s)''"
              "[PTuple [PInt 1], PTuple [PInt 2]]"
              "''insert into person values (%s)''" "PTuple [PTuple [PInt 1], PTuple [PInt 2]]"
              failing fresh_cursor "''no such table: person''" 0 1]
  by (simp add: execute_def execute_many_def get_cursor_def getattr_connection_def
      failing_driver_def failing_def Sqlite3Database_def MySQLDatabase_def Database_init_def
      translate_def with_params_def hasattr_items_def truthy_def issequenceform_def len_def)

theorem original_statement_counterexample:
  "fst (execute Sqlite3Database failing_driver ''select * from person where id=%s''
          [PInt 1] 0 1) =
     Inl (DatabaseException
            \<lparr>statement = ''select * from person where id=?'', parameters = [PInt 1],
             message = ''no such table: person''\<rparr>)
   \<and> fst (execute Sqlite3Database failing_driver ''select * from person where id=%s''
          [PInt 1] 0 1) \<noteq>
     Inl (DatabaseException
            \<lparr>statement = ''select * from person where id=%s'', parameters = [PInt 1],
             message = ''no such table: person''\<rparr>)"
  by (simp add: execute_def get_cursor_def getattr_connection_def private_execute_def
      failing_driver_def failing_def Sqlite3Database_def Database_init_def
      translate_def with_params_def hasattr_items_def truthy_def issequenceform_def)


text \<open>
  C6. When \<open>execute\<close> has its cursor, the statement is translated and the driver has
  run it, \<open>execute\<close> returns a \<open>Result\<close> over the cursor, with the default array size,
  exactly when the cursor's \<open>description\<close> is neither \<open>None\<close> nor empty, and the
  cursor's \<open>lastrowid\<close> otherwise.
\<close>

theorem execute_returns:
  assumes "connected self \<or> connect drv = None"
    and "new_cursor drv = Inr cur"
    and "translate (paramstyle self) command args = Inr (command', params)"
    and "cursor_execute drv command' params cur = Inr cur'"
  shows "fst (execute self drv command args start stop) =
           (if description_truthy cur'
            then Inr (ReturnedResult \<lparr>result_cursor = cur', array_size = ARRAY_SIZE\<rparr>)
            else Inr (ReturnedRowId (cursor_lastrowid cur')))
         \<and> ((\<exists>r. fst (execute self drv command args start stop) = Inr (ReturnedResult r))
              \<longleftrightarrow> description_truthy cur')"
proof -
  obtain self' where cur: "get_cursor self drv = (Inr cur, self')"
    and style: "paramstyle self' = paramstyle self"
    using assms(1,2)
    by (cases "connected self")
       (auto simp: get_cursor_def getattr_connection_def split: option.splits)
  show ?thesis
    using assms(3,4) by (simp add: execute_def cur style private_execute_def Let_def)
qed

theorem execute_returns_witness:
  "fst (execute Sqlite3Database working_driver
          ''insert into person (name, age) values (%s, %s)'' [PStr ''Joe'', PInt 32] 0 1) =
     Inr (ReturnedRowId (Some 1))
   \<and> fst (execute Sqlite3Database querying_driver ''select * from person'' [] 0 1) =
     Inr (ReturnedResult \<lparr>result_cursor = selected_cursor, array_size = 1000\<rparr>)"
  using execute_returns
          [where self = Sqlite3Database and drv = working_driver and cur = fresh_cursor
             and command = "''insert into person (name, age) values (%s, %s)''"
             and args = "[PStr ''Joe'', PInt 32]"
             and command' = "''insert into person (name, age) values (?, ?)''"
             and params = "PTuple [PStr ''Joe'', PInt 32]" and cur' = inserted_cursor
             and start = 0 and stop = 1]
        execute_returns
          [where self = Sqlite3Database and drv = querying_driver and cur = fresh_cursor
             and command = "''select * from person''" and args = "[]"
             and command' = "''select * from person''" and params = "PTuple []"
             and cur' = selected_cursor and start = 0 and stop = 1]
  by (simp add: working_driver_def querying_driver_def inserting_def selecting_def
      inserted_cursor_def selected_cursor_def description_truthy_def ARRAY_SIZE_def
      Sqlite3Database_def Database_init_def
      translate_def with_params_def hasattr_items_def truthy_def issequenceform_def)

text \<open>
  C7 (amended). In debug mode a call of \<open>execute\<close> appends exactly one line (elapsed
  milliseconds, translated statement, arguments) to the log when it has its cursor and
  the statement is translated, whether the driver then returns or raises. A call that
  fails before that, because the connection cannot be made, the cursor cannot be created
  or the statement cannot be translated, appends nothing, and with debug mode off no call
  appends anything.
\<close>

theorem debug_log_appended:
  "(\<forall>cur command' params.
      debug self \<and> fst (get_cursor self drv) = Inr cur
      \<and> translate (paramstyle self) command args = Inr (command', params) \<longrightarrow>
      sql_log (snd (execute self drv command args start stop)) =
        sql_log self @ [Trace ((stop - start) * 1000) command' args])
   \<and> (\<forall>e. fst (get_cursor self drv) = Inl e \<longrightarrow>
          sql_log (snd (execute self drv command args start stop)) = sql_log self)
   \<and> (\<forall>e. translate (paramstyle self) command args = Inl e \<longrightarrow>
          sql_log (snd (execute self drv command args start stop)) = sql_log self)
   \<and> (\<not> debug self \<longrightarrow>
          sql_log (snd (execute self drv command args start stop)) = sql_log self)"
proof (cases "get_cursor self drv")
  case (Pair r self')
  show ?thesis
  proof (cases r)
    case (Inl e)
    have "sql_log self' = sql_log self"
      using Pair Inl
      by (auto simp: get_cursor_def getattr_connection_def
          split: sum.splits option.splits if_splits)
    then show ?thesis
      using Pair Inl by (simp add: execute_def)
  next
    case (Inr cur)
    note same = get_cursor_connected[OF Pair[unfolded Inr]]
    have run: "execute self drv command args start stop =
                 private_execute self' cur (cursor_execute drv) command args start stop"
      using Pair Inr by (simp add: execute_def)
    show ?thesis
    proof (cases "translate (paramstyle self) command args")
      case failed: (Inl e)
      then show ?thesis
        using Pair Inr same by (simp add: run private_execute_def)
    next
      case translated: (Inr t)
      obtain command' params where t: "t = (command', params)"
        by (cases t)
      show ?thesis
        using Pair Inr same translated t
        by (cases "cursor_execute drv command' params cur")
           (simp_all add: run private_execute_def append_log_def Let_def)
    qed
  qed
qed

theorem debug_log_appended_witness:
  "sql_log (snd (execute (debugging Sqlite3Database) failing_driver
                   ''select * from person where id=%s'' [PInt 1] 2 5)) =
     [Trace 3000 ''select * from person where id=?'' [PInt 1]]
   \<and> sql_log (snd (execute (debugging Sqlite3Database) working_driver
                   ''insert into person (name) values (%s)'' [PStr ''Joe''] 2 5)) =
     [Trace 3000 ''insert into person (name) values (?)'' [PStr ''Joe'']]
   \<and> sql_log (snd (execute Sqlite3Database working_driver
                   ''insert into person (name) values (%s)'' [PStr ''Joe''] 2 5)) = []
   \<and> sql_log (snd (execute (debugging Sqlite3Database) unreachable_driver
                   ''insert into person (name) values (%s)'' [PStr ''Joe''] 2 5)) = []
   \<and> sql_log (snd (execute (debugging Sqlite3Database) working_driver
                   ''insert into person (name, age) values (%s, %s)'' [PStr ''Joe''] 2 5)) = []"
  using debug_log_appended
          [of "debugging Sqlite3Database" failing_driver
              "''select * from person where id=%s''" "[PInt 1]" 2 5]
        debug_log_appended
          [of "debugging Sqlite3Database" working_driver
              "''insert into person (name) values (%s)''" "[PStr ''Joe'']" 2 5]
        debug_log_appended
          [of Sqlite3Database working_driver
              "''insert into person (name) values (%s)''" "[PStr ''Joe'']" 2 5]
        debug_log_appended
          [of "debugging Sqlite3Database" unreachable_driver
              "''insert into person (name) values (%s)''" "[PStr ''Joe'']" 2 5]
        debug_log_appended
          [of "debugging Sqlite3Database" working_driver
              "''insert into person (name, age) values (%s, %s)''" "[PStr ''Joe'']" 2 5]
  by (simp add: get_cursor_def getattr_connection_def
      failing_driver_def working_driver_def unreachable_driver_def
      debugging_def Sqlite3Database_def Database_init_def
      translate_def with_params_def hasattr_items_def truthy_def issequenceform_def)

theorem debug_log_counterexample:
  "debug (debugging Sqlite3Database)
   \<and> execute (debugging Sqlite3Database) working_driver
        ''select * from person where id=%s'' [] 2 5 =
       (Inl TypeError, debugging Sqlite3Database\<lparr>connected := True\<rparr>)
   \<and> sql_log (snd (execute (debugging Sqlite3Database) working_driver
                     ''select * from person where id=%s'' [] 2 5)) =
       sql_log (debugging Sqlite3Database)
   \<and> execute (debugging Sqlite3Database) unreachable_driver
        ''select * from person where id=%s'' [PInt 1] 2 5 =
       (Inl (DriverError ''unable to open database file''), debugging Sqlite3Database)"
  by (simp add: execute_def get_cursor_def getattr_connection_def private_execute_def
      working_driver_def unreachable_driver_def debugging_def Sqlite3Database_def
      Database_init_def
      translate_def with_params_def hasattr_items_def truthy_def issequenceform_def)

text \<open>
  C10. An exception raised by the translation of the statement leaves \<open>_execute\<close> as it
  is, not as a \<open>DatabaseException\<close>, and the database object, its log included, is
  unchanged, also in debug mode.
\<close>

theorem translation_failure_unwrapped:
  assumes "translate (paramstyle self) command args = Inl e"
  shows "private_execute self cur method' command args start stop = (Inl e, self)
         \<and> (\<forall>t. e \<noteq> DatabaseException t)"
  using assms translate_errors[OF assms]
  by (auto simp: private_execute_def)

theorem translation_failure_unwrapped_witness:
  "private_execute (debugging Sqlite3Database) fresh_cursor inserting
     ''insert into person (name, age) values (%s, %s)'' [PStr ''Joe''] 2 5 =
     (Inl TypeError, debugging Sqlite3Database)
   \<and> sql_log (debugging Sqlite3Database) = []"
  using translation_failure_unwrapped
          [of "debugging Sqlite3Database" "''insert into person (name, age) values (%s, %s)''"
              "[PStr ''Joe'']" TypeError fresh_cursor inserting 2 5]
  by (simp add: debugging_def Sqlite3Database_def Database_init_def
      translate_def with_params_def hasattr_items_def truthy_def issequenceform_def)

section \<open>Opening a database\<close>

text \<open>
  C5 (amended). \<open>database\<close> raises \<open>UnkownDatabaseException\<close> exactly for the engine
  names other than \<open>sqlite3\<close> and \<open>mysql\<close>, and returns a database object for no other
  name: for \<open>sqlite3\<close> always, not yet connected, and for \<open>mysql\<close> once the driver
  has connected and switched autocommit on.
\<close>

theorem database_engines:
  "(database engine drv = Inl UnkownDatabaseException
      \<longleftrightarrow> engine \<noteq> ''sqlite3'' \<and> engine \<noteq> ''mysql'')
   \<and> ((\<exists>db. database engine drv = Inr db) \<longrightarrow> engine = ''sqlite3'' \<or> engine = ''mysql'')
   \<and> (engine = ''sqlite3'' \<longrightarrow> database engine drv = Inr Sqlite3Database)
   \<and> (engine = ''mysql'' \<and> connect drv = None \<and> autocommit drv = None
        \<longrightarrow> database engine drv = Inr (MySQLDatabase\<lparr>connected := True\<rparr>))"
  by (auto simp: database_def getattr_connection_def MySQLDatabase_def Database_init_def
      split: option.splits sum.splits)

theorem database_engines_witness:
  "database ''mysql'' working_driver = Inr (MySQLDatabase\<lparr>connected := True\<rparr>)
   \<and> database ''sqlite3'' working_driver = Inr Sqlite3Database
   \<and> database ''postgres'' working_driver = Inl UnkownDatabaseException"
  using database_engines[of "''mysql''" working_driver]
        database_engines[of "''sqlite3''" working_driver]
        database_engines[of "''postgres''" working_driver]
  by (simp add: working_driver_def)

theorem database_sqlite_counterexample:
  "database ''sqlite'' working_driver = Inl UnkownDatabaseException
   \<and> database ''sqlite3'' working_driver = Inr Sqlite3Database"
  by (simp add: database_def)

section \<open>Iterating a result\<close>

lemma iter_cursor_zero: "iter_cursor c 0 = ([], c)"
  by (subst iter_cursor.simps) (simp add: fetchmany_def)

lemma iter_cursor_all:
  "0 < sz \<Longrightarrow> iter_cursor c sz = (pending c, c\<lparr>pending := []\<rparr>)"
proof (induction "length (pending c)" arbitrary: c rule: less_induct)
  case less
  show ?case
  proof (cases "pending c = []")
    case True
    then show ?thesis
      by (subst iter_cursor.simps) (simp add: fetchmany_def)
  next
    case False
    let ?c' = "c\<lparr>pending := drop sz (pending c)\<rparr>"
    have "length (pending ?c') < length (pending c)"
      using False less.prems by simp
    from less.hyps[OF this less.prems]
    have "iter_cursor ?c' sz = (drop sz (pending c), c\<lparr>pending := []\<rparr>)"
      by simp
    then show ?thesis
      using False less.prems
      by (subst iter_cursor.simps) (simp add: fetchmany_def)
  qed
qed

text \<open>
  C9. Iterating a \<open>Result\<close> a second time yields no rows; with a positive array size
  the first iteration yields every row the cursor still held and leaves it exhausted.
\<close>

theorem Result_consumed:
  "fst (Result_iter (snd (Result_iter self))) = []
   \<and> (0 < array_size self \<longrightarrow>
        fst (Result_iter self) = pending (result_cursor self)
        \<and> pending (result_cursor (snd (Result_iter self))) = [])"
proof (cases "array_size self = 0")
  case True
  then show ?thesis by (simp add: Result_iter_def iter_cursor_zero)
next
  case False
  then show ?thesis by (simp add: Result_iter_def iter_cursor_all)
qed

theorem Result_consumed_witness:
  "fst (Result_iter \<lparr>result_cursor = selected_cursor, array_size = 1\<rparr>) =
     [[PInt 1, PStr ''Joe''], [PInt 2, PStr ''Ann'']]
   \<and> fst (Result_iter (snd (Result_iter \<lparr>result_cursor = selected_cursor, array_size = 1\<rparr>)))
     = []"
  using Result_consumed[of "\<lparr>result_cursor = selected_cursor, array_size = 1\<rparr>"]
  by (simp add: selected_cursor_def)

section \<open>The names of a user's groups\<close>

lemma foldl_named_groups:
  "foldl (\<lambda>named_groups (groupid, name).
            if groupid \<in> ids then named_groups @ [strip name] else named_groups) acc rows =
   acc @ map (\<lambda>row. strip (snd row)) (filter (\<lambda>row. fst row \<in> ids) rows)"
  by (induction rows arbitrary: acc) (auto split: prod.splits)

lemma get_groups_rows:
  assumes "select_members db (user_id u) = Inr my_groups"
    and "select_subgroups db = Inr subgroups"
    and "select_groups db = Inr rows"
  shows "get_groups db u =
           Inr (map (\<lambda>row. strip (snd row))
                  (filter (\<lambda>row. fst row \<in> set (group_ids my_groups subgroups)) rows))"
  using assms by (simp add: get_groups_def Let_def foldl_named_groups)

text \<open>
  C8 (amended). The names \<open>get_groups\<close> returns are the trimmed names of the rows of the
  groups table whose id is in the closure, one for each such row, in the order of the rows
  of the table; they are pairwise distinct when the trimmed names in the table are.
\<close>

theorem get_groups_names:
  assumes "select_members db (user_id u) = Inr my_groups"
    and "select_subgroups db = Inr subgroups"
    and "select_groups db = Inr rows"
  shows "get_groups db u =
           Inr (map (\<lambda>row. strip (snd row))
                  (filter (\<lambda>row. fst row \<in> set (group_ids my_groups subgroups)) rows))
         \<and> (distinct (map (\<lambda>row. strip (snd row)) rows) \<longrightarrow>
              (\<exists>names. get_groups db u = Inr names \<and> distinct names))"
  using get_groups_rows[OF assms] by (simp add: distinct_map_filter)

theorem get_groups_names_witness:
  "get_groups chain_db guest = Inr [''users'', ''managers'', ''everyone'']"
proof -
  have ids: "group_ids [1] [(2, 1), (3, 2)] = [1, 1, 2, 3]"
    by (simp add: group_ids_def get_memberships.simps)
  have sp: "strip ''users'' = ''users''" "strip '' managers'' = ''managers''"
    "strip ''everyone '' = ''everyone''"
    by (simp_all add: strip_def isspace_def)
  show ?thesis
    using get_groups_names[of chain_db guest "[1]" "[(2, 1), (3, 2)]"
        "[(1, ''users''), (2, '' managers''), (3, ''everyone ''), (4, ''guests'')]"]
    by (simp add: chain_db_def ids sp)
qed

theorem discovery_order_counterexample:
  "get_groups plain_db guest = Inr [''administrators'', ''users'']
   \<and> names_in_discovery_order (group_ids [2, 1] []) [(1, ''administrators''), (2, ''users'')]
       = [''users'', ''administrators'']
   \<and> get_groups padded_db guest = Inr [''staff'', ''staff'']"
proof -
  have ids: "group_ids [2, 1] [] = [2, 1, 2, 1]"
    by (simp add: group_ids_def get_memberships.simps)
  have sp: "strip ''users'' = ''users''" "strip ''administrators'' = ''administrators''"
    "strip ''staff'' = ''staff''" "strip ''staff '' = ''staff''"
    by (simp_all add: strip_def isspace_def)
  show ?thesis
    by (simp add: get_groups_def plain_db_def padded_db_def Let_def ids sp
        names_in_discovery_order_def first_occurrences_def)
qed

section \<open>Expanding the memberships\<close>

lemma foldl_unchanged:
  "(\<And>x. x \<in> set xs \<Longrightarrow> f a x = a) \<Longrightarrow> foldl f a xs = a"
  by (induction xs) simp_all

lemma foldl_once:
  assumes "\<And>x. x \<in> set xs \<Longrightarrow> f a x = a \<or> f a x = b"
    and "\<And>x. x \<in> set xs \<Longrightarrow> f b x = b"
  shows "foldl f a xs = (if \<exists>x \<in> set xs. f a x = b then b else a)"
  using assms
proof (induction xs)
  case Nil
  then show ?case by simp
next
  case (Cons x xs)
  show ?case
  proof (cases "f a x = b")
    case True
    have "foldl f b xs = b"
      using Cons.prems(2) by (intro foldl_unchanged) simp
    then show ?thesis using True by simp
  next
    case False
    then have "f a x = a" using Cons.prems(1)[of x] by simp
    moreover have "foldl f a xs = (if \<exists>x \<in> set xs. f a x = b then b else a)"
      using Cons.prems by (intro Cons.IH) simp_all
    ultimately show ?thesis using False by simp
  qed
qed

lemma chain_top:
  assumes "set subgroups = {(G2, G1), (G3, G2)}" "G1 \<noteq> G3" "G2 \<noteq> G3"
  shows "get_memberships G3 subgroups depth = [G3]"
proof (cases "depth < 10")
  case True
  have "foldl (\<lambda>result (grp, sgrp).
                 if G3 = sgrp \<and> grp \<notin> set result
                 then result @ get_memberships grp subgroups (depth + 1) else result)
          [G3] subgroups = [G3]"
    using assms by (intro foldl_unchanged) auto
  then show ?thesis using True by (subst get_memberships.simps) simp
next
  case False
  then show ?thesis by (subst get_memberships.simps) simp
qed

lemma chain_middle:
  assumes "set subgroups = {(G2, G1), (G3, G2)}" "G1 \<noteq> G2" "G1 \<noteq> G3" "G2 \<noteq> G3"
    and "depth < 10"
  shows "get_memberships G2 subgroups depth = [G2, G3]"
proof -
  define f where
    "f = (\<lambda>result (grp, sgrp).
            if G2 = sgrp \<and> grp \<notin> set result
            then result @ get_memberships grp subgroups (depth + 1) else result)"
  have top: "get_memberships G3 subgroups (depth + 1) = [G3]"
    by (rule chain_top[OF assms(1) assms(3) assms(4)])
  have rows: "x = (G2, G1) \<or> x = (G3, G2)" if "x \<in> set subgroups" for x
    using that assms(1) by simp
  have stay: "f [G2] x = [G2] \<or> f [G2] x = [G2, G3]" if "x \<in> set subgroups" for x
    using rows[OF that] assms(2-4) top by (auto simp: f_def)
  have kept: "f [G2, G3] x = [G2, G3]" if "x \<in> set subgroups" for x
    using rows[OF that] assms(2-4) by (auto simp: f_def)
  have step: "f [G2] (G3, G2) = [G2, G3]"
    using assms top by (simp add: f_def)
  have "foldl f [G2] subgroups =
          (if \<exists>x \<in> set subgroups. f [G2] x = [G2, G3] then [G2, G3] else [G2])"
    using stay kept by (rule foldl_once[where f = f and a = "[G2]" and b = "[G2, G3]"])
  moreover have "\<exists>x \<in> set subgroups. f [G2] x = [G2, G3]"
    using step assms(1) by blast
  ultimately have "foldl f [G2] subgroups = [G2, G3]"
    by simp
  then show ?thesis
    using assms(5) by (subst get_memberships.simps) (simp add: f_def)
qed

lemma chain_bottom:
  assumes "set subgroups = {(G2, G1), (G3, G2)}" "G1 \<noteq> G2" "G1 \<noteq> G3" "G2 \<noteq> G3"
  shows "get_memberships G1 subgroups 0 = [G1, G2, G3]"
proof -
  define f where
    "f = (\<lambda>result (grp, sgrp).
            if G1 = sgrp \<and> grp \<notin> set result
            then result @ get_memberships grp subgroups (0 + 1) else result)"
  have middle: "get_memberships G2 subgroups (0 + 1) = [G2, G3]"
    by (rule chain_middle[OF assms]) simp
  have rows: "x = (G2, G1) \<or> x = (G3, G2)" if "x \<in> set subgroups" for x
    using that assms(1) by simp
  have stay: "f [G1] x = [G1] \<or> f [G1] x = [G1, G2, G3]" if "x \<in> set subgroups" for x
    using rows[OF that] assms(2-4) middle by (auto simp: f_def)
  have kept: "f [G1, G2, G3] x = [G1, G2, G3]" if "x \<in> set subgroups" for x
    using rows[OF that] assms(2-4) by (auto simp: f_def)
  have step: "f [G1] (G2, G1) = [G1, G2, G3]"
    using assms middle by (simp add: f_def)
  have "foldl f [G1] subgroups =
          (if \<exists>x \<in> set subgroups. f [G1] x = [G1, G2, G3] then [G1, G2, G3] else [G1])"
    using stay kept
    by (rule foldl_once[where f = f and a = "[G1]" and b = "[G1, G2, G3]"])
  moreover have "\<exists>x \<in> set subgroups. f [G1] x = [G1, G2, G3]"
    using step assms(1) by blast
  ultimately have "foldl f [G1] subgroups = [G1, G2, G3]"
    by simp
  then show ?thesis
    by (subst get_memberships.simps) (simp add: f_def)
qed

text \<open>
  C3. For a user whose only direct membership is \<open>G1\<close>, with the subgroup rows saying
  that \<open>G1\<close> is a subgroup of \<open>G2\<close> and \<open>G2\<close> a subgroup of \<open>G3\<close> (in any order, repeated
  or not), the expansion of \<open>G1\<close> is \<open>G1, G2, G3\<close>, the ids of the closure are exactly
  these three, and \<open>get_groups\<close> returns the trimmed names of the rows of the groups table
  that carry one of them.
\<close>

theorem chain_closure:
  assumes "G1 \<noteq> G2" "G1 \<noteq> G3" "G2 \<noteq> G3"
    and "set subgroups = {(G2, G1), (G3, G2)}"
    and "select_members db (user_id u) = Inr [G1]"
    and "select_subgroups db = Inr subgroups"
    and "select_groups db = Inr rows"
  shows "get_memberships G1 subgroups 0 = [G1, G2, G3]
         \<and> set (group_ids [G1] subgroups) = {G1, G2, G3}
         \<and> get_groups db u =
             Inr (map (\<lambda>row. strip (snd row))
                    (filter (\<lambda>row. fst row \<in> {G1, G2, G3}) rows))"
proof -
  have expand: "get_memberships G1 subgroups 0 = [G1, G2, G3]"
    by (rule chain_bottom[OF assms(4) assms(1) assms(2) assms(3)])
  then have ids: "set (group_ids [G1] subgroups) = {G1, G2, G3}"
    by (auto simp: group_ids_def)
  show ?thesis
    using expand ids get_groups_rows[OF assms(5) assms(6) assms(7)] by simp
qed

theorem chain_closure_witness:
  "get_memberships 1 [(2, 1), (3, 2)] 0 = [1, 2, 3]
   \<and> set (group_ids [1] [(2, 1), (3, 2)]) = {1, 2, 3}
   \<and> get_groups chain_db guest = Inr [''users'', ''managers'', ''everyone'']"
proof -
  have sp: "strip ''users'' = ''users''" "strip '' managers'' = ''managers''"
    "strip ''everyone '' = ''everyone''"
    by (simp_all add: strip_def isspace_def)
  show ?thesis
    using chain_closure[of 1 2 3 "[(2, 1), (3, 2)]" chain_db guest
        "[(1, ''users''), (2, '' managers''), (3, ''everyone ''), (4, ''guests'')]"]
    by (simp add: chain_db_def sp)
qed

section \<open>Termination and bounds of the expansion\<close>









end
